theory Spec2Isabelle
  imports Complex_Main "HOL-Library.AList"
begin

section \<open>The OSM service (modules/services/OsmService.js)\<close>

text \<open>
  The service is a JavaScript class whose methods mutate the fields of \<open>this\<close> and
  hand work to the browser: HTTP requests, timers, idle callbacks, events. The embedding
  passes the service state explicitly and returns, with the new state, the list of
  things the method asked the browser to do (\<open>action\<close>), in program order. The part of
  a method that runs later (a promise's \<open>then\<close>/\<open>catch\<close>, a timer body, an idle
  callback) is a function of its own that takes the state of the service at the moment
  it runs; the variables it closes over are its parameters.

  Callbacks are HOL functions from their arguments and the state to a new state and
  the actions they cause. A callback supplied by the caller of the service is opaque:
  \<open>user_callback n\<close> records that callback number \<open>n\<close> was called, and with what.
\<close>

subsection \<open>Values\<close>

text \<open>A JavaScript value that may be \<open>undefined\<close> or \<open>null\<close>.\<close>

datatype 'a js = Undefined | Null | Val 'a

text \<open>Truthiness of a string-valued field: \<open>undefined\<close>, \<open>null\<close> and \<open>''\<close> are falsy.\<close>

fun truthy :: "string js \<Rightarrow> bool" where
  "truthy (Val v) = (v \<noteq> [])"
| "truthy _ = False"

record error =
  message :: string
  status :: int

text \<open>
  The outcome of a \<open>fetch\<close> promise chained through \<open>utilFetchResponse\<close>: the
  response's content, a \<open>FetchError\<close> carrying the HTTP status, an \<open>AbortError\<close> (the
  request's controller was aborted), or any other rejection.
\<close>

datatype 'r response = Ok 'r | FetchError error | AbortError | OtherError

datatype controller = Controller string

type_synonym loc = "rat \<times> rat"

record extent =
  ext_min :: loc
  ext_max :: loc

record tile =
  tile_id :: string
  wgs84Extent :: extent

text \<open>
  An item of an RBush index: a bounding box and what it carries (a tile's box carries
  the tile's ID in \<open>id\<close>, a note's box the note in \<open>data\<close>).
\<close>

record 'd bbox =
  minX :: rat
  minY :: rat
  maxX :: rat
  maxY :: rat
  item_data :: 'd

record user =
  user_id :: string
  display_name :: "string js"
  account_created :: "string js"
  image_url :: "string js"
  changesets_count :: string
  active_blocks :: string

datatype note_prop = TextContent string | Comments "(string \<times> string) list list"

record osmNote =
  note_id :: string
  note_loc :: loc
  note_props :: "(string \<times> note_prop) list"

record member =
  member_id :: string
  member_type :: string
  member_role :: string

text \<open>
  The properties handed to \<open>osmNode\<close>, \<open>osmWay\<close> and \<open>osmRelation\<close>. The constructors
  are not part of this file of the repository; an entity is represented by the
  properties it is built from.
\<close>

record entity_props =
  ent_id :: string
  visible :: bool
  version :: "string js"
  changeset_prop :: "string js"
  timestamp :: "string js"
  user_prop :: "string js"
  uid_prop :: "string js"
  tags :: "(string \<rightharpoonup> string) js"

text \<open>What \<open>parseFloat\<close> returns; numbers are exact.\<close>

datatype num = NaN | Num rat

datatype entity =
    OsmNode entity_props "num \<times> num"
  | OsmWay entity_props "string list"
  | OsmRelation entity_props "member list"

record changeset =
  cs_id :: "string js"
  cs_tags :: "(string \<times> string) list"

datatype changes = Changes "entity list" "entity list" "entity list"

subsection \<open>Payloads\<close>

text \<open>
  What \<open>utilFetchResponse\<close> hands over: nothing (a falsy value), the object decoded from
  a JSON response, or the document decoded from an XML response. The JSON object is read
  through the members the parser reads; numbers that the code prints with \<open>toString()\<close> or
  appends to a string are non-negative integers.
\<close>

record json_member =
  jm_type :: string
  jm_ref :: nat
  jm_role :: string

record json_element =
  je_type :: string
  je_id :: nat
  je_visible :: "bool option"
  je_version :: "nat option"
  je_changeset :: "nat option"
  je_timestamp :: "string js"
  je_user :: "string js"
  je_uid :: "nat option"
  je_lon :: "rat option"
  je_lat :: "rat option"
  je_tags :: "(string \<rightharpoonup> string) js"
  je_nodes :: "nat list option"
  je_members :: "json_member list option"

record json_user =
  ju_id :: "nat option"
  ju_display_name :: "string js"
  ju_account_created :: "string js"
  ju_img_href :: "string js"
  ju_changesets_count :: "nat option"
  ju_blocks_active :: "nat option"

record json_changeset =
  jc_id :: nat
  jc_comment :: "string js"

record json_payload =
  elements :: "json_element list"
  user_member :: "json_user option"
  users :: "json_user list"
  changesets :: "json_changeset list"

text \<open>
  An XML node: an element with its name, attributes and children, or a text node. A
  document is given by the children of its first child (the \<open>osm\<close> element).
\<close>

datatype xml = Element string "(string \<times> string) list" "xml list" | Text string

datatype payload = NoPayload | JSONPayload json_payload | XMLPayload "xml list"

datatype parsed =
    ParsedEntity entity
  | ParsedNote osmNote
  | ParsedUser user
  | ParsedChangeset json_changeset

record results =
  data :: "parsed list"
  seenIDs :: "string set"

subsection \<open>Callbacks and actions\<close>

text \<open>
  The callbacks that travel with a request of \<open>loadFromAPI\<close>, as data: a callback of the
  caller (opaque, numbered), no callback, or one of the closures the service itself
  passes, with the variables it closes over.
\<close>

record load_options =
  skipSeen :: bool

datatype changesets_callback = ChangesetsCaller nat | ChangesetsNoop

datatype details_callback = DetailsCaller nat | GotUser changesets_callback

datatype api_callback =
    ApiCaller nat
  | NoCallback
  | GotTile tile "nat option"
  | GotNoteTile tile
  | GotUsers nat
  | GotUsers1 nat
  | GotDetails details_callback
  | GotChangesets changesets_callback

text \<open>What the \<open>done\<close> closure of a \<open>loadFromAPI\<close> call closes over.\<close>

record pending =
  p_cid :: nat
  p_path :: string
  p_callback :: api_callback
  p_options :: load_options

text \<open>The work \<open>_parseJSON\<close> and \<open>_parseXML\<close> defer to an idle callback.\<close>

datatype idle_task =
    ParseJSON json_payload api_callback load_options
  | ParseXML "xml list" api_callback load_options

datatype status_callback = StatusCaller nat | ReloadApiStatus

datatype body = NoBody | ChangesetXML changeset | OsmChangeXML changeset changes

record request =
  http_method :: string
  resource :: string
  authenticated_fetch :: bool
  request_body :: body

datatype arg =
    ArgUndefined
  | ArgNoError
  | ArgError error
  | ArgChangeset changeset
  | ArgResults results
  | ArgTileResults "results option" tile
  | ArgData "parsed list"
  | ArgParsed "parsed option"
  | ArgString "string js"

text \<open>
  \<open>Fetch\<close> is a request of the changeset lifecycle, \<open>FetchAPI\<close> a request of
  \<open>loadFromAPI\<close> (with what its response will need), \<open>FetchStatus\<close> the capabilities
  request of \<open>status\<close>. \<open>ThrottledReloadApiStatus\<close> is a call of the throttled
  \<open>reloadApiStatus\<close>; \<open>TypeError\<close> an uncaught exception that ends the turn.
\<close>

datatype action =
    Fetch request
  | FetchAPI request pending
  | FetchStatus request nat status_callback
  | OauthAuthenticate
  | Abort controller
  | Emit string
  | EmitApiStatusChange "error option" "string js"
  | ThrottledReloadApiStatus
  | SetTimeout nat
  | RequestIdleCallback idle_task
  | Callback nat "arg list"
  | TypeError

subsection \<open>The state of the service\<close>

text \<open>
  The fields of \<open>this\<close>. \<open>authenticated\<close> stands for \<open>this._oauth.authenticated()\<close>:
  the OAuth client (the osm-auth library) holds a token or not, and its \<open>logout()\<close>
  drops the token; \<open>cached_userDetails\<close> and \<open>cached_userChangesets\<close> are the fields
  \<open>_userDetails\<close> and \<open>_userChangesets\<close>. Objects used as sets of keys (\<open>loaded\<close>, \<open>seen\<close>, \<open>toLoad\<close>) are sets;
  \<open>inflight\<close> objects, whose keys the code enumerates, are association lists in
  insertion order; an RBush index is the list of its items; \<open>deferred\<close> counts the
  idle callbacks that are registered. The cache objects are the ones the constructor
  made: \<open>resetAsync\<close> and \<open>caches\<close>, which replace them, are not modelled.
\<close>

record state =
  urlroot :: string
  connectionID :: nat
  authenticated :: bool
  rateLimitError :: "error option"
  cached_userChangesets :: "parsed list option"
  cached_userDetails :: "parsed option"
  cachedApiStatus :: "string js"
  off :: bool
  cs_inflight :: "controller option"
  openChangesetID :: "string js"
  tile_toLoad :: "string set"
  tile_loaded :: "string set"
  tile_inflight :: "(string \<times> controller) list"
  tile_seen :: "string set"
  tile_rtree :: "string bbox list"
  note_loaded :: "string set"
  note_inflight :: "(string \<times> controller) list"
  note_cache :: "string \<rightharpoonup> osmNote"
  note_rtree :: "osmNote bbox list"
  user_toLoad :: "string set"
  user_cache :: "string \<rightharpoonup> user"
  deferred :: nat
  imageryBlocklists :: "string list"
  maxWayNodes :: nat

type_synonym effect = "state \<times> action list"

text \<open>Running \<open>f\<close> after the state and the actions of what ran before it.\<close>

definition andThen :: "effect \<Rightarrow> (state \<Rightarrow> effect) \<Rightarrow> effect" where
  "andThen r f = (case f (fst r) of (s', bs) \<Rightarrow> (s', snd r @ bs))"

type_synonym ('a, 'b) callback = "'a \<Rightarrow> 'b \<Rightarrow> state \<Rightarrow> effect"

text \<open>
  A changeset callback supplied by the caller: \<open>callback(err, changeset)\<close>. A falsy
  \<open>err\<close> (\<open>null\<close> or \<open>undefined\<close>) is \<open>ArgNoError\<close>; a second argument that was not
  passed is \<open>ArgUndefined\<close>.
\<close>

definition err_arg :: "error option \<Rightarrow> arg" where
  "err_arg err = (case err of None \<Rightarrow> ArgNoError | Some e \<Rightarrow> ArgError e)"

definition changeset_arg :: "changeset option \<Rightarrow> arg" where
  "changeset_arg c = (case c of None \<Rightarrow> ArgUndefined | Some c' \<Rightarrow> ArgChangeset c')"

definition user_callback :: "nat \<Rightarrow> (error option, changeset option) callback" where
  "user_callback n err c s = (s, [Callback n [err_arg err, changeset_arg c]])"

subsection \<open>Strings and numbers\<close>

text \<open>\<open>String.prototype.trim\<close> on the ASCII white space and line terminators.\<close>

definition is_space :: "char \<Rightarrow> bool" where
  "is_space ch = (ch \<in> {CHR 0x09, CHR 0x0A, CHR 0x0B, CHR 0x0C, CHR 0x0D, CHR '' ''})"

definition trim :: "string \<Rightarrow> string" where
  "trim str = rev (dropWhile is_space (rev (dropWhile is_space str)))"

text \<open>\<open>Number.prototype.toString\<close> on a non-negative integer.\<close>

fun string_of_nat :: "nat \<Rightarrow> string" where
  "string_of_nat n =
     (if n < 10 then [''0123456789'' ! n]
      else string_of_nat (n div 10) @ [''0123456789'' ! (n mod 10)])"

declare string_of_nat.simps [simp del]

definition toString :: "nat option \<Rightarrow> string js" where
  "toString n = (case n of None \<Rightarrow> Undefined | Some k \<Rightarrow> Val (string_of_nat k))"

text \<open>
  \<open>parseFloat\<close> on a string: leading white space, an optional sign, decimal digits with
  an optional fraction, an optional exponent; the rest is ignored. No digits give
  \<open>NaN\<close> (so does \<open>Infinity\<close>, which has no exact value). The value is exact.
\<close>

definition is_digit :: "char \<Rightarrow> bool" where
  "is_digit ch = (48 \<le> (of_char ch :: nat) \<and> (of_char ch :: nat) \<le> 57)"

definition digits_value :: "string \<Rightarrow> nat" where
  "digits_value ds = foldl (\<lambda>acc ch. 10 * acc + (of_char ch - 48)) 0 ds"

definition exponent :: "string \<Rightarrow> int" where
  "exponent str =
     (case str of
        ch # rest \<Rightarrow>
          if ch = CHR ''e'' \<or> ch = CHR ''E''
          then (case rest of
                  sg # rest' \<Rightarrow>
                    if sg = CHR ''-'' then - int (digits_value (takeWhile is_digit rest'))
                    else if sg = CHR ''+'' then int (digits_value (takeWhile is_digit rest'))
                    else int (digits_value (takeWhile is_digit rest))
                | [] \<Rightarrow> 0)
          else 0
      | [] \<Rightarrow> 0)"

definition scale10 :: "rat \<Rightarrow> int \<Rightarrow> rat" where
  "scale10 x k = (if 0 \<le> k then x * 10 ^ nat k else x / 10 ^ nat (- k))"

definition parseFloat :: "string \<Rightarrow> num" where
  "parseFloat str =
     (let s1 = dropWhile is_space str;
          neg = (s1 \<noteq> [] \<and> hd s1 = CHR ''-'');
          s2 = (if s1 \<noteq> [] \<and> (hd s1 = CHR ''-'' \<or> hd s1 = CHR ''+'') then tl s1 else s1);
          ip = takeWhile is_digit s2;
          s3 = dropWhile is_digit s2;
          dot = (s3 \<noteq> [] \<and> hd s3 = CHR ''.'');
          fp = (if dot then takeWhile is_digit (tl s3) else []);
          s4 = (if dot then dropWhile is_digit (tl s3) else s3);
          m = rat_of_nat (digits_value (ip @ fp)) / 10 ^ length fp
      in if ip = [] \<and> fp = [] then NaN
         else Num (scale10 (if neg then - m else m) (exponent s4)))"


text \<open>\<open>path.indexOf('.json') !== -1\<close>.\<close>

fun has_json :: "string \<Rightarrow> bool" where
  "has_json [] = False"
| "has_json (ch # rest) = (take 5 (ch # rest) = ''.json'' \<or> has_json rest)"

subsection \<open>Reading XML\<close>

fun nodeName :: "xml \<Rightarrow> string" where
  "nodeName (Element name attrs children) = name"
| "nodeName (Text txt) = ''#text''"

fun attributes :: "xml \<Rightarrow> (string \<times> string) list" where
  "attributes (Element name attrs children) = attrs"
| "attributes (Text txt) = []"


text \<open>\<open>attrs.name\<close>, then \<open>.value\<close>: \<open>None\<close> when the attribute is missing.\<close>

definition attr :: "xml \<Rightarrow> string \<Rightarrow> string option" where
  "attr x name = map_of (attributes x) name"

fun descendants :: "xml \<Rightarrow> xml list" where
  "descendants (Element name attrs children) = concat (map (\<lambda>c. c # descendants c) children)"
| "descendants (Text txt) = []"

definition getElementsByTagName :: "xml \<Rightarrow> string \<Rightarrow> xml list" where
  "getElementsByTagName x name = filter (\<lambda>e. nodeName e = name) (descendants x)"


subsection \<open>Parsing one element\<close>






text \<open>The loop of \<open>_getTags\<close> over the \<open>tag\<close> elements, from the tags collected so far.\<close>

fun getTags_loop :: "xml list \<Rightarrow> (string \<rightharpoonup> string) \<Rightarrow> (string \<rightharpoonup> string) option" where
  "getTags_loop [] tgs = Some tgs"
| "getTags_loop (elem # elems) tgs =
     (case attr elem ''k'' of
        None \<Rightarrow> None
      | Some kv \<Rightarrow>
          (case attr elem ''v'' of
             None \<Rightarrow> None
           | Some vv \<Rightarrow>
               (let k = trim kv; v = trim vv
                in getTags_loop elems (if k \<noteq> [] then tgs(k \<mapsto> v) else tgs))))"

definition getTags :: "xml \<Rightarrow> (string \<rightharpoonup> string) option" where
  "getTags x = getTags_loop (getElementsByTagName x ''tag'') Map.empty"



definition json_props :: "json_element \<Rightarrow> string \<Rightarrow> entity_props" where
  "json_props obj uid =
     \<lparr>ent_id = uid,
      visible = (case je_visible obj of Some b \<Rightarrow> b | None \<Rightarrow> True),
      version = toString (je_version obj),
      changeset_prop = toString (je_changeset obj),
      timestamp = je_timestamp obj,
      user_prop = je_user obj,
      uid_prop = toString (je_uid obj),
      tags = je_tags obj\<rparr>"




definition js_of_option :: "'a option \<Rightarrow> 'a js" where
  "js_of_option v = (case v of None \<Rightarrow> Undefined | Some a \<Rightarrow> Val a)"

text \<open>The properties common to the three XML parsers, up to \<open>uid\<close>, and the tags.\<close>

definition xml_props :: "xml \<Rightarrow> string \<Rightarrow> entity_props option" where
  "xml_props x uid =
     (case attr x ''version'' of
        None \<Rightarrow> None
      | Some ver \<Rightarrow>
          (case getTags x of
             None \<Rightarrow> None
           | Some tgs \<Rightarrow>
               Some \<lparr>ent_id = uid,
                     visible = (attr x ''visible'' \<noteq> Some ''false''),
                     version = Val ver,
                     changeset_prop = js_of_option (attr x ''changeset''),
                     timestamp = js_of_option (attr x ''timestamp''),
                     user_prop = js_of_option (attr x ''user''),
                     uid_prop = js_of_option (attr x ''uid''),
                     tags = Val tgs\<rparr>))"




subsection \<open>An element and its two representations\<close>

text \<open>
  To compare the JSON parsers with the XML parsers, an element of the OSM data model and
  the two documents the API serves for it (API v0.6): the JSON object and the XML
  element. A coordinate is the decimal literal both documents print; the JSON object
  holds the number it denotes. The JSON object of an element without tags has no
  \<open>tags\<close> member.
\<close>

datatype osm_type = TNode | TWay | TRelation

fun type_name :: "osm_type \<Rightarrow> string" where
  "type_name TNode = ''node''"
| "type_name TWay = ''way''"
| "type_name TRelation = ''relation''"

record osm_member =
  om_type :: osm_type
  om_ref :: nat
  om_role :: string

record osm_element =
  oe_type :: osm_type
  oe_id :: nat
  oe_visible :: "bool option"
  oe_version :: nat
  oe_changeset :: "nat option"
  oe_timestamp :: "string option"
  oe_user :: "string option"
  oe_uid :: "nat option"
  oe_lon :: "string option"
  oe_lat :: "string option"
  oe_tags :: "(string \<times> string) list"
  oe_nodes :: "nat list"
  oe_members :: "osm_member list"

definition number_of :: "string option \<Rightarrow> rat option" where
  "number_of lit =
     (case lit of
        None \<Rightarrow> None
      | Some str \<Rightarrow> (case parseFloat str of NaN \<Rightarrow> None | Num q \<Rightarrow> Some q))"

definition asJSON :: "osm_element \<Rightarrow> json_element" where
  "asJSON e =
     \<lparr>je_type = type_name (oe_type e), je_id = oe_id e, je_visible = oe_visible e,
      je_version = Some (oe_version e), je_changeset = oe_changeset e,
      je_timestamp = js_of_option (oe_timestamp e), je_user = js_of_option (oe_user e),
      je_uid = oe_uid e, je_lon = number_of (oe_lon e), je_lat = number_of (oe_lat e),
      je_tags = (if oe_tags e = [] then Undefined else Val (map_of (rev (oe_tags e)))),
      je_nodes = Some (oe_nodes e),
      je_members = Some (map (\<lambda>m. \<lparr>jm_type = type_name (om_type m), jm_ref = om_ref m,
                                     jm_role = om_role m\<rparr>) (oe_members e))\<rparr>"

definition opt_attr :: "string \<Rightarrow> string option \<Rightarrow> (string \<times> string) list" where
  "opt_attr name v = (case v of None \<Rightarrow> [] | Some str \<Rightarrow> [(name, str)])"

definition tag_xml :: "string \<times> string \<Rightarrow> xml" where
  "tag_xml kv = Element ''tag'' [(''k'', fst kv), (''v'', snd kv)] []"

definition nd_xml :: "nat \<Rightarrow> xml" where
  "nd_xml n = Element ''nd'' [(''ref'', string_of_nat n)] []"

definition member_xml :: "osm_member \<Rightarrow> xml" where
  "member_xml m =
     Element ''member''
       [(''type'', type_name (om_type m)), (''ref'', string_of_nat (om_ref m)),
        (''role'', om_role m)] []"

definition asXML :: "osm_element \<Rightarrow> xml" where
  "asXML e =
     Element (type_name (oe_type e))
       ([(''id'', string_of_nat (oe_id e))] @
        opt_attr ''visible'' (map_option (\<lambda>b. if b then ''true'' else ''false'') (oe_visible e)) @
        [(''version'', string_of_nat (oe_version e))] @
        opt_attr ''changeset'' (map_option string_of_nat (oe_changeset e)) @
        opt_attr ''timestamp'' (oe_timestamp e) @
        opt_attr ''user'' (oe_user e) @
        opt_attr ''uid'' (map_option string_of_nat (oe_uid e)) @
        opt_attr ''lat'' (oe_lat e) @
        opt_attr ''lon'' (oe_lon e))
       (map tag_xml (oe_tags e) @ map nd_xml (oe_nodes e) @ map member_xml (oe_members e))"





subsection \<open>Authentication\<close>

definition logout :: "state \<Rightarrow> effect" where
  "logout s =
     (s\<lparr>cached_userChangesets := None, cached_userDetails := None, authenticated := False\<rparr>,
      [Emit ''authchange''])"

subsection \<open>Wrapping an API callback\<close>

text \<open>
  \<open>_wrapcb(callback)\<close> reads the connection ID when it is called (\<open>s0\<close> is the state
  then) and returns the function that runs when the response arrives.
\<close>

definition wrapcb_at ::
  "nat \<Rightarrow> (error option, 'r js) callback \<Rightarrow> (error option, 'r js) callback" where
  "wrapcb_at cid callback err results s =
     (case err of
        Some e \<Rightarrow>
          if status e = 400 \<or> status e = 401 \<or> status e = 403
          then andThen (logout s) (callback (Some e) Undefined)
          else callback (Some e) Undefined s
      | None \<Rightarrow>
          if connectionID s \<noteq> cid
          then callback (Some \<lparr>message = ''Connection Switched'', status = -1\<rparr>) Undefined s
          else callback None results s)"

definition wrapcb ::
  "state \<Rightarrow> (error option, 'r js) callback \<Rightarrow> (error option, 'r js) callback" where
  "wrapcb s0 callback = (let cid = connectionID s0 in wrapcb_at cid callback)"

subsection \<open>The changeset lifecycle\<close>

text \<open>
  What every changeset request does with its promise: \<open>then\<close> passes the result to the
  wrapped callback; \<open>catch\<close> clears \<open>inflight\<close>, ignores an abort and passes a
  \<open>FetchError\<close> on.
\<close>

definition changeset_promise ::
  "(error option, 'r js) callback \<Rightarrow> 'r response \<Rightarrow> state \<Rightarrow> effect" where
  "changeset_promise errback resp s =
     (case resp of
        Ok result \<Rightarrow> errback None (Val result) s
      | FetchError e \<Rightarrow> errback (Some e) Undefined (s\<lparr>cs_inflight := None\<rparr>)
      | AbortError \<Rightarrow> (s\<lparr>cs_inflight := None\<rparr>, [])
      | OtherError \<Rightarrow> (s\<lparr>cs_inflight := None\<rparr>, []))"

definition createdChangeset ::
  "changeset \<Rightarrow> (error option, changeset option) callback \<Rightarrow> (error option, string js) callback" where
  "createdChangeset changeset callback err changesetID s =
     (let s1 = s\<lparr>cs_inflight := None\<rparr> in
      case err of
        Some e \<Rightarrow> callback (Some e) (Some changeset) s1
      | None \<Rightarrow>
          callback None (Some (changeset\<lparr>cs_id := changesetID\<rparr>))
            (s1\<lparr>openChangesetID := changesetID\<rparr>))"

definition create_request :: "state \<Rightarrow> changeset \<Rightarrow> request" where
  "create_request s changeset =
     \<lparr>http_method = ''PUT'', resource = urlroot s @ ''/api/0.6/changeset/create'',
      authenticated_fetch = True, request_body = ChangesetXML changeset\<rparr>"

definition createChangeset ::
  "state \<Rightarrow> changeset \<Rightarrow> (error option, changeset option) callback \<Rightarrow> effect" where
  "createChangeset s changeset callback =
     (if cs_inflight s \<noteq> None
      then callback (Some \<lparr>message = ''Changeset already inflight'', status = -2\<rparr>) None s
      else if \<not> authenticated s
      then callback (Some \<lparr>message = ''Not Authenticated'', status = -3\<rparr>) None s
      else if truthy (openChangesetID s)
      then createdChangeset changeset callback None (openChangesetID s) s
      else (s\<lparr>cs_inflight := Some (Controller (resource (create_request s changeset)))\<rparr>,
            [Fetch (create_request s changeset)]))"



text \<open>\<open>changeset.id\<close> inside a template string: \<open>undefined\<close> and \<open>null\<close> print as words.\<close>

fun id_string :: "string js \<Rightarrow> string" where
  "id_string (Val v) = v"
| "id_string Undefined = ''undefined''"
| "id_string Null = ''null''"

definition upload_request :: "state \<Rightarrow> changeset \<Rightarrow> changes \<Rightarrow> request" where
  "upload_request s changeset chs =
     \<lparr>http_method = ''POST'',
      resource = urlroot s @ ''/api/0.6/changeset/'' @ id_string (cs_id changeset) @ ''/upload'',
      authenticated_fetch = True, request_body = OsmChangeXML changeset chs\<rparr>"

definition uploadChangeset ::
  "state \<Rightarrow> changeset \<Rightarrow> changes \<Rightarrow> (error option, changeset option) callback \<Rightarrow> effect" where
  "uploadChangeset s changeset chs callback =
     (if cs_inflight s \<noteq> None
      then callback (Some \<lparr>message = ''Changeset already inflight'', status = -2\<rparr>) None s
      else if \<not> authenticated s
      then callback (Some \<lparr>message = ''Not Authenticated'', status = -3\<rparr>) None s
      else if cs_id changeset \<noteq> openChangesetID s
      then callback (Some \<lparr>message = ''Changeset ID mismatch'', status = -4\<rparr>) None s
      else (s\<lparr>cs_inflight := Some (Controller (resource (upload_request s changeset chs)))\<rparr>,
            [Fetch (upload_request s changeset chs)]))"


definition closedChangeset ::
  "changeset \<Rightarrow> (error option, changeset option) callback \<Rightarrow> (error option, string js) callback" where
  "closedChangeset changeset callback err result s =
     callback err (Some changeset) (s\<lparr>cs_inflight := None, openChangesetID := Null\<rparr>)"

definition close_request :: "state \<Rightarrow> changeset \<Rightarrow> request" where
  "close_request s changeset =
     \<lparr>http_method = ''PUT'',
      resource = urlroot s @ ''/api/0.6/changeset/'' @ id_string (cs_id changeset) @ ''/close'',
      authenticated_fetch = True, request_body = NoBody\<rparr>"

definition closeChangeset ::
  "state \<Rightarrow> changeset \<Rightarrow> (error option, changeset option) callback \<Rightarrow> effect" where
  "closeChangeset s changeset callback =
     (if cs_inflight s \<noteq> None
      then callback (Some \<lparr>message = ''Changeset already inflight'', status = -2\<rparr>) None s
      else if \<not> authenticated s
      then callback (Some \<lparr>message = ''Not Authenticated'', status = -3\<rparr>) None s
      else if cs_id changeset \<noteq> openChangesetID s
      then callback (Some \<lparr>message = ''Changeset ID mismatch'', status = -4\<rparr>) None s
      else (s\<lparr>cs_inflight := Some (Controller (resource (close_request s changeset)))\<rparr>,
            [Fetch (close_request s changeset)]))"

definition closeChangeset_response ::
  "state \<Rightarrow> changeset \<Rightarrow> (error option, changeset option) callback \<Rightarrow>
   string response \<Rightarrow> state \<Rightarrow> effect" where
  "closeChangeset_response s0 changeset callback =
     changeset_promise (wrapcb s0 (closedChangeset changeset callback))"

subsection \<open>\<open>sendChangeset\<close>: create, upload, close\<close>







subsection \<open>Requests of \<open>loadFromAPI\<close>\<close>

definition api_request :: "state \<Rightarrow> string \<Rightarrow> request" where
  "api_request s path =
     \<lparr>http_method = ''GET'', resource = urlroot s @ path,
      authenticated_fetch = authenticated s, request_body = NoBody\<rparr>"

text \<open>
  \<open>loadFromAPI\<close> issues the request, with or without the OAuth token, and returns its
  controller. What runs when the response arrives is \<open>loadFromAPI_response\<close> below, on
  the \<open>pending\<close> record that travels with the request.
\<close>

definition loadFromAPI ::
  "state \<Rightarrow> string \<Rightarrow> api_callback \<Rightarrow> load_options \<Rightarrow> controller \<times> action list" where
  "loadFromAPI s path callback options =
     (Controller (urlroot s @ path),
      [FetchAPI (api_request s path)
         \<lparr>p_cid = connectionID s, p_path = path, p_callback = callback, p_options = options\<rparr>])"

subsection \<open>The callbacks of the service\<close>

definition results_arg :: "results option \<Rightarrow> arg" where
  "results_arg r = (case r of None \<Rightarrow> ArgUndefined | Some res \<Rightarrow> ArgResults res)"

definition tile_bbox :: "tile \<Rightarrow> string bbox" where
  "tile_bbox t =
     \<lparr>minX = fst (ext_min (wgs84Extent t)), minY = snd (ext_min (wgs84Extent t)),
      maxX = fst (ext_max (wgs84Extent t)), maxY = snd (ext_max (wgs84Extent t)),
      item_data = tile_id t\<rparr>"

text \<open>\<open>gotTile\<close>, the callback of \<open>loadTile\<close>; \<open>callback\<close> is the caller's, if any.\<close>

definition gotTile :: "tile \<Rightarrow> nat option \<Rightarrow> (error option, results option) callback" where
  "gotTile t callback err res s =
     (let s1 = s\<lparr>tile_inflight := AList.delete (tile_id t) (tile_inflight s)\<rparr>;
          s2 = (if err = None
                then s1\<lparr>tile_toLoad := tile_toLoad s1 - {tile_id t},
                        tile_loaded := insert (tile_id t) (tile_loaded s1),
                        tile_rtree := tile_bbox t # tile_rtree s1\<rparr>
                else s1)
      in (s2,
          (case callback of
             None \<Rightarrow> []
           | Some n \<Rightarrow> [Callback n [err_arg err, ArgTileResults res t]]) @
          (if tile_inflight s2 = [] then [Emit ''loaded''] else [])))"

text \<open>The callback \<open>loadNotes\<close> passes for a note tile.\<close>

definition gotNoteTile :: "tile \<Rightarrow> (error option, results option) callback" where
  "gotNoteTile t err res s =
     (let s1 = s\<lparr>note_inflight := AList.delete (tile_id t) (note_inflight s)\<rparr>;
          s2 = (if err = None then s1\<lparr>note_loaded := insert (tile_id t) (note_loaded s1)\<rparr> else s1)
      in (s2, [Emit ''loadedNotes'']))"

text \<open>\<open>results.data[0]\<close>.\<close>

definition first_parsed :: "results \<Rightarrow> parsed option" where
  "first_parsed res = (case data res of [] \<Rightarrow> None | d # ds \<Rightarrow> Some d)"

text \<open>\<open>gotUsers\<close> of \<open>loadUsers\<close> and of \<open>loadUser\<close>; reading \<open>results.data\<close> of an
  \<open>undefined\<close> result throws.\<close>

definition gotUsers :: "nat \<Rightarrow> (error option, results option) callback" where
  "gotUsers n err res s =
     (case err of
        Some e \<Rightarrow> (s, [Callback n [ArgError e]])
      | None \<Rightarrow>
          (case res of
             None \<Rightarrow> (s, [TypeError])
           | Some r \<Rightarrow> (s, [Callback n [ArgUndefined, ArgData (data r)]])))"

definition gotUsers1 :: "nat \<Rightarrow> (error option, results option) callback" where
  "gotUsers1 n err res s =
     (case err of
        Some e \<Rightarrow> (s, [Callback n [ArgError e]])
      | None \<Rightarrow>
          (case res of
             None \<Rightarrow> (s, [TypeError])
           | Some r \<Rightarrow> (s, [Callback n [ArgUndefined, ArgParsed (first_parsed r)]])))"

text \<open>The callbacks of \<open>userChangesets\<close> and \<open>userDetails\<close>.\<close>

definition invoke_changesets ::
  "changesets_callback \<Rightarrow> error option \<Rightarrow> parsed list option \<Rightarrow> state \<Rightarrow> effect" where
  "invoke_changesets cb err cs s =
     (case cb of
        ChangesetsNoop \<Rightarrow> (s, [])
      | ChangesetsCaller n \<Rightarrow>
          (case err of
             Some e \<Rightarrow> (s, [Callback n [ArgError e]])
           | None \<Rightarrow>
               (s, [Callback n [ArgUndefined,
                      (case cs of None \<Rightarrow> ArgUndefined | Some d \<Rightarrow> ArgData d)]])))"

definition gotChangesets :: "changesets_callback \<Rightarrow> (error option, results option) callback" where
  "gotChangesets cb err res s =
     (case err of
        Some e \<Rightarrow> invoke_changesets cb (Some e) None s
      | None \<Rightarrow>
          (case res of
             None \<Rightarrow> (s, [TypeError])
           | Some r \<Rightarrow>
               invoke_changesets cb None (Some (data r)) (s\<lparr>cached_userChangesets := Some (data r)\<rparr>)))"

text \<open>\<open>user.id\<close> of what \<open>userDetails\<close> handed over.\<close>

fun parsed_id :: "parsed \<Rightarrow> string" where
  "parsed_id (ParsedUser u) = user_id u"
| "parsed_id (ParsedNote n) = note_id n"
| "parsed_id (ParsedChangeset c) = string_of_nat (jc_id c)"
| "parsed_id (ParsedEntity (OsmNode props l)) = ent_id props"
| "parsed_id (ParsedEntity (OsmWay props ns)) = ent_id props"
| "parsed_id (ParsedEntity (OsmRelation props ms)) = ent_id props"

definition gotUser ::
  "changesets_callback \<Rightarrow> error option \<Rightarrow> parsed option \<Rightarrow> state \<Rightarrow> effect" where
  "gotUser cb err usr s =
     (case err of
        Some e \<Rightarrow> invoke_changesets cb (Some e) None s
      | None \<Rightarrow>
          (case usr of
             None \<Rightarrow> (s, [TypeError])
           | Some u \<Rightarrow>
               (s, snd (loadFromAPI s (''/api/0.6/changesets.json?user='' @ parsed_id u)
                          (GotChangesets cb) \<lparr>skipSeen = False\<rparr>))))"

definition invoke_details ::
  "details_callback \<Rightarrow> error option \<Rightarrow> parsed option \<Rightarrow> state \<Rightarrow> effect" where
  "invoke_details cb err usr s =
     (case cb of
        GotUser ccb \<Rightarrow> gotUser ccb err usr s
      | DetailsCaller n \<Rightarrow>
          (case err of
             Some e \<Rightarrow> (s, [Callback n [ArgError e]])
           | None \<Rightarrow> (s, [Callback n [ArgUndefined, ArgParsed usr]])))"

definition gotDetails :: "details_callback \<Rightarrow> (error option, results option) callback" where
  "gotDetails cb err res s =
     (case err of
        Some e \<Rightarrow> invoke_details cb (Some e) None s
      | None \<Rightarrow>
          (case res of
             None \<Rightarrow> (s, [TypeError])
           | Some r \<Rightarrow>
               invoke_details cb None (first_parsed r) (s\<lparr>cached_userDetails := first_parsed r\<rparr>)))"

text \<open>Calling the callback that travels with a request.\<close>

definition invoke_api :: "api_callback \<Rightarrow> (error option, results option) callback" where
  "invoke_api cb err res s =
     (case cb of
        ApiCaller n \<Rightarrow>
          (case err of
             Some e \<Rightarrow> (s, [Callback n [ArgError e]])
           | None \<Rightarrow> (s, [Callback n [ArgNoError, results_arg res]]))
      | NoCallback \<Rightarrow> (s, [])
      | GotTile t callback \<Rightarrow> gotTile t callback err res s
      | GotNoteTile t \<Rightarrow> gotNoteTile t err res s
      | GotUsers n \<Rightarrow> gotUsers n err res s
      | GotUsers1 n \<Rightarrow> gotUsers1 n err res s
      | GotDetails dcb \<Rightarrow> gotDetails dcb err res s
      | GotChangesets ccb \<Rightarrow> gotChangesets ccb err res s)"

subsection \<open>The spatial index\<close>






subsection \<open>Parsing notes and users\<close>

















subsection \<open>\<open>_parseXML\<close>\<close>







text \<open>
  \<open>_parseXML\<close>: an error for a payload that is no document, else the registration of
  the idle callback. (The test for an \<open>error\<close> child reads \<open>child.nodename\<close>, which no
  node has, so it never reports \<open>Partial XML\<close>.)
\<close>

definition parseXML :: "payload \<Rightarrow> api_callback \<Rightarrow> load_options \<Rightarrow> state \<Rightarrow> effect" where
  "parseXML pl callback options s =
     (case pl of
        XMLPayload children \<Rightarrow>
          (s\<lparr>deferred := deferred s + 1\<rparr>, [RequestIdleCallback (ParseXML children callback options)])
      | _ \<Rightarrow> invoke_api callback (Some \<lparr>message = ''No XML'', status = -1\<rparr>) None s)"


subsection \<open>\<open>_parseJSON\<close>\<close>






text \<open>A payload that is not a JSON object has none of the members the parser reads.\<close>

definition json_of :: "payload \<Rightarrow> json_payload" where
  "json_of pl =
     (case pl of
        JSONPayload j \<Rightarrow> j
      | _ \<Rightarrow> \<lparr>elements = [], user_member = None, users = [], changesets = []\<rparr>)"


definition parseJSON :: "payload \<Rightarrow> api_callback \<Rightarrow> load_options \<Rightarrow> state \<Rightarrow> effect" where
  "parseJSON pl callback options s =
     (if pl = NoPayload
      then invoke_api callback (Some \<lparr>message = ''No JSON'', status = -1\<rparr>) None s
      else if \<exists>el \<in> set (elements (json_of pl)). je_type el = ''error''
      then invoke_api callback (Some \<lparr>message = ''Partial JSON'', status = -1\<rparr>) None s
      else (s\<lparr>deferred := deferred s + 1\<rparr>,
            [RequestIdleCallback (ParseJSON (json_of pl) callback options)]))"



subsection \<open>The response to a request of \<open>loadFromAPI\<close>\<close>

text \<open>
  \<open>done\<close>, the closure of \<open>loadFromAPI\<close>: \<open>p\<close> is what it closes over, \<open>s\<close> the state when
  the response arrives.
\<close>

definition auth_failure :: "error option \<Rightarrow> bool" where
  "auth_failure err =
     (case err of None \<Rightarrow> False | Some e \<Rightarrow> status e = 400 \<or> status e = 401 \<or> status e = 403)"

definition rate_limited :: "error option \<Rightarrow> bool" where
  "rate_limited err = (case err of None \<Rightarrow> False | Some e \<Rightarrow> status e = 509 \<or> status e = 429)"

definition loadFromAPI_done :: "pending \<Rightarrow> error option \<Rightarrow> payload \<Rightarrow> state \<Rightarrow> effect" where
  "loadFromAPI_done p err pl s =
     (if connectionID s \<noteq> p_cid p
      then (if p_callback p = NoCallback then (s, [])
            else invoke_api (p_callback p)
                   (Some \<lparr>message = ''Connection Switched'', status = -1\<rparr>) None s)
      else
        (let isAuthenticated = authenticated s in
         if isAuthenticated \<and> auth_failure err
         then andThen (logout s)
                (\<lambda>s'. (s', snd (loadFromAPI s' (p_path p) (p_callback p) (p_options p))))
         else
           andThen
             (if \<not> isAuthenticated \<and> rateLimitError s = None \<and> rate_limited err
              then (s\<lparr>rateLimitError := err\<rparr>, [Emit ''authchange'', ThrottledReloadApiStatus])
              else if (err \<noteq> None \<and> cachedApiStatus s = Val ''online'') \<or>
                      (err = None \<and> cachedApiStatus s \<noteq> Val ''online'')
              then (s, [ThrottledReloadApiStatus])
              else (s, []))
             (\<lambda>s'. if p_callback p = NoCallback then (s', [])
                   else if err \<noteq> None then invoke_api (p_callback p) err None s'
                   else if has_json (p_path p) then parseJSON pl (p_callback p) (p_options p) s'
                   else parseXML pl (p_callback p) (p_options p) s')))"

text \<open>The promise of \<open>loadFromAPI\<close>: an abort and any rejection that is no \<open>FetchError\<close>
  are dropped.\<close>

definition loadFromAPI_response :: "pending \<Rightarrow> payload response \<Rightarrow> state \<Rightarrow> effect" where
  "loadFromAPI_response p resp s =
     (case resp of
        Ok result \<Rightarrow> loadFromAPI_done p None result s
      | FetchError e \<Rightarrow> loadFromAPI_done p (Some e) NoPayload s
      | AbortError \<Rightarrow> (s, [])
      | OtherError \<Rightarrow> (s, []))"

subsection \<open>Loading tiles\<close>










subsection \<open>Loading notes\<close>





subsection \<open>Loading users\<close>

text \<open>\<open>utilArrayUniq\<close> keeps the first occurrence of each element; \<open>utilArrayChunk(a, n)\<close>
  cuts \<open>a\<close> into slices of \<open>n\<close>; \<open>arr.join()\<close> puts commas between.\<close>

definition utilArrayUniq :: "'a list \<Rightarrow> 'a list" where
  "utilArrayUniq a = rev (remdups (rev a))"

definition utilArrayChunk :: "'a list \<Rightarrow> nat \<Rightarrow> 'a list list" where
  "utilArrayChunk a n =
     (if n = 0 then [a]
      else map (\<lambda>i. take n (drop (i * n) a)) [0..<(length a + n - 1) div n])"

fun join :: "string list \<Rightarrow> string" where
  "join [] = []"
| "join [x] = x"
| "join (x # y # ys) = x @ '','' @ join (y # ys)"

text \<open>The first loop of \<open>loadUsers\<close>: the cached users, the IDs to load, and \<open>toLoad\<close> of
  the cache without the cached IDs.\<close>

fun loadUsers_split ::
  "string list \<Rightarrow> state \<Rightarrow> state \<times> user list \<times> string list" where
  "loadUsers_split [] s = (s, [], [])"
| "loadUsers_split (uid # rest) s =
     (case user_cache s uid of
        Some u \<Rightarrow>
          (case loadUsers_split rest (s\<lparr>user_toLoad := user_toLoad s - {uid}\<rparr>) of
             (s', cached, toLoad) \<Rightarrow> (s', u # cached, toLoad))
      | None \<Rightarrow>
          (case loadUsers_split rest s of
             (s', cached, toLoad) \<Rightarrow> (s', cached, uid # toLoad)))"

definition loadUsers :: "state \<Rightarrow> string list \<Rightarrow> nat \<Rightarrow> effect" where
  "loadUsers s uids callback =
     (case loadUsers_split (utilArrayUniq uids) s of
        (s1, cached, toLoad) \<Rightarrow>
          (s1,
           (if cached \<noteq> [] \<or> \<not> authenticated s1
            then [Callback callback [ArgUndefined, ArgData (map ParsedUser cached)]] else []) @
           (if \<not> authenticated s1 then []
            else concat (map (\<lambda>arr. snd (loadFromAPI s1 (''/api/0.6/users.json?users='' @ join arr)
                                           (GotUsers callback) \<lparr>skipSeen = True\<rparr>))
                           (utilArrayChunk toLoad 150)))))"

definition loadUser :: "state \<Rightarrow> string \<Rightarrow> nat \<Rightarrow> effect" where
  "loadUser s uid callback =
     (if user_cache s uid \<noteq> None \<or> \<not> authenticated s
      then (s\<lparr>user_toLoad := user_toLoad s - {uid}\<rparr>,
            [Callback callback [ArgUndefined, ArgParsed (map_option ParsedUser (user_cache s uid))]])
      else (s, snd (loadFromAPI s (''/api/0.6/user/'' @ uid @ ''.json'') (GotUsers1 callback)
                      \<lparr>skipSeen = True\<rparr>)))"

definition userDetails :: "state \<Rightarrow> details_callback \<Rightarrow> effect" where
  "userDetails s callback =
     (if cached_userDetails s \<noteq> None then invoke_details callback None (cached_userDetails s) s
      else (s, snd (loadFromAPI s ''/api/0.6/user/details.json'' (GotDetails callback)
                      \<lparr>skipSeen = False\<rparr>)))"

definition userChangesets :: "state \<Rightarrow> changesets_callback \<Rightarrow> effect" where
  "userChangesets s callback =
     (if cached_userChangesets s \<noteq> None then invoke_changesets callback None (cached_userChangesets s) s
      else userDetails s (GotUser callback))"

subsection \<open>The status of the API\<close>

text \<open>
  What \<open>status\<close> reads from the capabilities document: the \<open>regex\<close> attributes of the
  \<open>blacklist\<close> elements that compile, the \<open>maximum\<close> of the first \<open>waynodes\<close> element when
  it is a finite number other than zero, and the \<open>api\<close> attribute of the first \<open>status\<close>
  element (\<open>None\<close> when there is no such element: reading it throws).
\<close>

record capabilities =
  cap_regexes :: "string list"
  cap_maxWayNodes :: "nat option"
  cap_api :: "string js option"

definition invoke_status :: "status_callback \<Rightarrow> error option \<Rightarrow> string js \<Rightarrow> state \<Rightarrow> effect" where
  "invoke_status cb err val s =
     (case cb of
        StatusCaller n \<Rightarrow> (s, [Callback n [err_arg err, ArgString val]])
      | ReloadApiStatus \<Rightarrow>
          if val \<noteq> cachedApiStatus s
          then (s\<lparr>cachedApiStatus := val\<rparr>, [EmitApiStatusChange err val])
          else (s, []))"

text \<open>\<open>gotResult\<close>, the closure of \<open>status\<close>.\<close>

definition gotResult :: "status_callback \<Rightarrow> (error option, capabilities js) callback" where
  "gotResult callback err xml s =
     (case err of
        Some e \<Rightarrow> invoke_status callback (Some e) Null s
      | None \<Rightarrow>
          (case rateLimitError s of
             Some r \<Rightarrow> invoke_status callback (Some r) (Val ''rateLimited'') s
           | None \<Rightarrow>
               (case xml of
                  Val caps \<Rightarrow>
                    (let s1 = (if cap_regexes caps \<noteq> []
                               then s\<lparr>imageryBlocklists := cap_regexes caps\<rparr> else s);
                         s2 = (case cap_maxWayNodes caps of
                                 None \<Rightarrow> s1 | Some m \<Rightarrow> s1\<lparr>maxWayNodes := m\<rparr>)
                     in case cap_api caps of
                          None \<Rightarrow> (s2, [TypeError])
                        | Some val \<Rightarrow> invoke_status callback None val s2)
                | _ \<Rightarrow> (s, [TypeError]))))"

definition status_request :: "state \<Rightarrow> request" where
  "status_request s =
     \<lparr>http_method = ''GET'', resource = urlroot s @ ''/api/capabilities'',
      authenticated_fetch = False, request_body = NoBody\<rparr>"

text \<open>\<open>status(callback)\<close>; the method is named \<open>statusAPI\<close> here, \<open>status\<close> being the field of
  an error.\<close>

definition statusAPI :: "state \<Rightarrow> status_callback \<Rightarrow> effect" where
  "statusAPI s callback = (s, [FetchStatus (status_request s) (connectionID s) callback])"

text \<open>The promise of \<open>status\<close>: every rejection goes to the wrapped callback; one that is
  no \<open>FetchError\<close> has no \<open>status\<close> (written 0).\<close>

definition statusAPI_response ::
  "nat \<Rightarrow> status_callback \<Rightarrow> capabilities response \<Rightarrow> state \<Rightarrow> effect" where
  "statusAPI_response cid callback resp s =
     (case resp of
        Ok result \<Rightarrow> wrapcb_at cid (gotResult callback) None (Val result) s
      | FetchError e \<Rightarrow> wrapcb_at cid (gotResult callback) (Some e) Undefined s
      | AbortError \<Rightarrow>
          wrapcb_at cid (gotResult callback) (Some \<lparr>message = ''AbortError'', status = 0\<rparr>) Undefined s
      | OtherError \<Rightarrow>
          wrapcb_at cid (gotResult callback) (Some \<lparr>message = ''Error'', status = 0\<rparr>) Undefined s)"

definition reloadApiStatus :: "state \<Rightarrow> effect" where
  "reloadApiStatus s = statusAPI s ReloadApiStatus"

subsection \<open>\<open>authenticate\<close>\<close>

definition authenticate :: "state \<Rightarrow> effect" where
  "authenticate s =
     (s\<lparr>cached_userChangesets := None, cached_userDetails := None\<rparr>, [OauthAuthenticate])"

text \<open>\<open>done\<close>, the closure \<open>authenticate\<close> hands to the OAuth client: \<open>cid\<close> is the
  connection ID read by \<open>authenticate\<close>, \<open>callback\<close> the caller's, if any.\<close>

definition authenticate_done :: "nat \<Rightarrow> nat option \<Rightarrow> error option \<Rightarrow> arg \<Rightarrow> state \<Rightarrow> effect" where
  "authenticate_done cid callback err res s =
     (case err of
        Some e \<Rightarrow> (s, case callback of None \<Rightarrow> [] | Some n \<Rightarrow> [Callback n [ArgError e]])
      | None \<Rightarrow>
          if connectionID s \<noteq> cid
          then (s, case callback of
                     None \<Rightarrow> []
                   | Some n \<Rightarrow>
                       [Callback n [ArgError \<lparr>message = ''Connection Switched'', status = -1\<rparr>]])
          else andThen
                 (s\<lparr>rateLimitError := None\<rparr>,
                  Emit ''authchange'' #
                  (case callback of None \<Rightarrow> [] | Some n \<Rightarrow> [Callback n [ArgNoError, res]]))
                 (\<lambda>s'. userChangesets s' ChangesetsNoop))"

text \<open>A cached user.\<close>

definition alice :: user where
  "alice = \<lparr>user_id = ''1'', display_name = Val ''alice'', account_created = Undefined,
     image_url = Undefined, changesets_count = ''0'', active_blocks = ''0''\<rparr>"

subsection \<open>Reading a list of actions\<close>

fun fetched :: "action list \<Rightarrow> request list" where
  "fetched [] = []"
| "fetched (Fetch r # as) = r # fetched as"
| "fetched (a # as) = fetched as"

fun called :: "action list \<Rightarrow> (nat \<times> arg list) list" where
  "called [] = []"
| "called (Callback n args # as) = (n, args) # called as"
| "called (a # as) = called as"

lemma fetched_append [simp]: "fetched (xs @ ys) = fetched xs @ fetched ys"
  by (induction xs rule: fetched.induct) auto

lemma called_append [simp]: "called (xs @ ys) = called xs @ called ys"
  by (induction xs rule: called.induct) auto

fun api_fetched :: "action list \<Rightarrow> (request \<times> pending) list" where
  "api_fetched [] = []"
| "api_fetched (FetchAPI r p # as) = (r, p) # api_fetched as"
| "api_fetched (a # as) = api_fetched as"

lemma api_fetched_append [simp]: "api_fetched (xs @ ys) = api_fetched xs @ api_fetched ys"
  by (induction xs rule: api_fetched.induct) auto

subsection \<open>Requests for a tile\<close>

text \<open>
  The tile a request of \<open>loadFromAPI\<close> was issued for, the number of requests for the tile
  with ID \<open>i\<close> among a list of actions, and what the guards of \<open>loadTile\<close> and \<open>loadNotes\<close>
  test: the tile is marked loaded or has an entry in \<open>inflight\<close>.
\<close>

fun requested_tile :: "api_callback \<Rightarrow> string option" where
  "requested_tile (GotTile t callback) = Some (tile_id t)"
| "requested_tile (GotNoteTile t) = Some (tile_id t)"
| "requested_tile cb = None"

definition tile_requests :: "string \<Rightarrow> action list \<Rightarrow> nat" where
  "tile_requests i acts =
     length (filter (\<lambda>rp. requested_tile (p_callback (snd rp)) = Some i) (api_fetched acts))"







subsection \<open>Entities among the parse results\<close>








text \<open>The state the constructor leaves (the blocklist pattern is written with character
  classes in place of backslash escapes).\<close>

definition initial :: state where
  "initial =
     \<lparr>urlroot = ''https://www.openstreetmap.org'', connectionID = 0, authenticated = False,
      rateLimitError = None, cached_userChangesets = None, cached_userDetails = None,
      cachedApiStatus = Undefined, off = False, cs_inflight = None,
      openChangesetID = Undefined, tile_toLoad = {}, tile_loaded = {}, tile_inflight = [],
      tile_seen = {}, tile_rtree = [], note_loaded = {}, note_inflight = [],
      note_cache = Map.empty, note_rtree = [], user_toLoad = {}, user_cache = Map.empty,
      deferred = 0,
      imageryBlocklists = [''.*[.]google(apis)?[.].*/(vt|kh)[?/].*([xyz]=.*){3}.*''],
      maxWayNodes = 2000\<rparr>"

section \<open>Guards of the changeset requests\<close>

text \<open>
  C2. \<open>createChangeset\<close>, \<open>uploadChangeset\<close> and \<open>closeChangeset\<close> check, in this order:
  a changeset request is already inflight (status -2); the client is not authenticated
  (status -3); and, for upload and close, the given changeset's id is not the open
  changeset ID (status -4). In each of these cases the whole effect of the method is to
  call its callback with that error alone, in the state it was called in: nothing is
  fetched and no field of the service changes.
\<close>

theorem changeset_guards:
  "(cs_inflight s \<noteq> None \<longrightarrow>
      createChangeset s c cb =
        cb (Some \<lparr>message = ''Changeset already inflight'', status = -2\<rparr>) None s \<and>
      uploadChangeset s c chs cb =
        cb (Some \<lparr>message = ''Changeset already inflight'', status = -2\<rparr>) None s \<and>
      closeChangeset s c cb =
        cb (Some \<lparr>message = ''Changeset already inflight'', status = -2\<rparr>) None s) \<and>
   (cs_inflight s = None \<and> \<not> authenticated s \<longrightarrow>
      createChangeset s c cb = cb (Some \<lparr>message = ''Not Authenticated'', status = -3\<rparr>) None s \<and>
      uploadChangeset s c chs cb = cb (Some \<lparr>message = ''Not Authenticated'', status = -3\<rparr>) None s \<and>
      closeChangeset s c cb = cb (Some \<lparr>message = ''Not Authenticated'', status = -3\<rparr>) None s) \<and>
   (cs_inflight s = None \<and> authenticated s \<and> cs_id c \<noteq> openChangesetID s \<longrightarrow>
      uploadChangeset s c chs cb =
        cb (Some \<lparr>message = ''Changeset ID mismatch'', status = -4\<rparr>) None s \<and>
      closeChangeset s c cb =
        cb (Some \<lparr>message = ''Changeset ID mismatch'', status = -4\<rparr>) None s)"
  by (simp add: createChangeset_def uploadChangeset_def closeChangeset_def)

text \<open>
  The three guards at concrete states, with a caller's callback: the state returned is the
  state given and the only action is the call of the callback.
\<close>

theorem changeset_guards_witness:
  "createChangeset (initial\<lparr>cs_inflight := Some (Controller ''r'')\<rparr>)
      \<lparr>cs_id = Val ''7'', cs_tags = []\<rparr> (user_callback 0) =
     (initial\<lparr>cs_inflight := Some (Controller ''r'')\<rparr>,
      [Callback 0 [ArgError \<lparr>message = ''Changeset already inflight'', status = -2\<rparr>, ArgUndefined]]) \<and>
   closeChangeset initial \<lparr>cs_id = Val ''7'', cs_tags = []\<rparr> (user_callback 0) =
     (initial, [Callback 0 [ArgError \<lparr>message = ''Not Authenticated'', status = -3\<rparr>, ArgUndefined]]) \<and>
   uploadChangeset (initial\<lparr>authenticated := True\<rparr>) \<lparr>cs_id = Val ''7'', cs_tags = []\<rparr>
      (Changes [] [] []) (user_callback 0) =
     (initial\<lparr>authenticated := True\<rparr>,
      [Callback 0 [ArgError \<lparr>message = ''Changeset ID mismatch'', status = -4\<rparr>, ArgUndefined]])"
  using changeset_guards [of "initial\<lparr>cs_inflight := Some (Controller ''r'')\<rparr>"
          "\<lparr>cs_id = Val ''7'', cs_tags = []\<rparr>" "user_callback 0" "Changes [] [] []"]
        changeset_guards [of initial "\<lparr>cs_id = Val ''7'', cs_tags = []\<rparr>" "user_callback 0" "Changes [] [] []"]
        changeset_guards [of "initial\<lparr>authenticated := True\<rparr>"
          "\<lparr>cs_id = Val ''7'', cs_tags = []\<rparr>" "user_callback 0" "Changes [] [] []"]
  by (simp add: initial_def user_callback_def err_arg_def changeset_arg_def)

section \<open>The changeset lifecycle of \<open>sendChangeset\<close>\<close>






section \<open>JSON and XML parsers\<close>

lemma map_of_opt_attr: "map_of (opt_attr name v) k = (if k = name then v else None)"
  by (cases v) (auto simp: opt_attr_def)

lemma attr_asXML:
  "attr (asXML e) ''version'' = Some (string_of_nat (oe_version e))"
  "attr (asXML e) ''visible'' = map_option (\<lambda>b. if b then ''true'' else ''false'') (oe_visible e)"
  "attr (asXML e) ''changeset'' = map_option string_of_nat (oe_changeset e)"
  "attr (asXML e) ''timestamp'' = oe_timestamp e"
  "attr (asXML e) ''user'' = oe_user e"
  "attr (asXML e) ''uid'' = map_option string_of_nat (oe_uid e)"
  "attr (asXML e) ''lon'' = oe_lon e"
  "attr (asXML e) ''lat'' = oe_lat e"
  by (simp_all add: attr_def asXML_def map_add_def map_of_opt_attr split: option.splits)

lemma descendants_leaves:
  "(\<And>c. c \<in> set cs \<Longrightarrow> descendants c = []) \<Longrightarrow> concat (map (\<lambda>c. c # descendants c) cs) = cs"
  by (induction cs) auto

lemma descendants_asXML:
  "descendants (asXML e) =
     map tag_xml (oe_tags e) @ map nd_xml (oe_nodes e) @ map member_xml (oe_members e)"
  unfolding asXML_def descendants.simps
  by (rule descendants_leaves) (auto simp: tag_xml_def nd_xml_def member_xml_def)

lemma elements_asXML:
  "getElementsByTagName (asXML e) ''tag'' = map tag_xml (oe_tags e)"
  "getElementsByTagName (asXML e) ''nd'' = map nd_xml (oe_nodes e)"
  "getElementsByTagName (asXML e) ''member'' = map member_xml (oe_members e)"
  by (simp_all add: getElementsByTagName_def descendants_asXML filter_map comp_def
        tag_xml_def nd_xml_def member_xml_def)

lemma getTags_loop_step:
  "getTags_loop (tag_xml kv # elems) m =
     getTags_loop elems (if trim (fst kv) \<noteq> [] then m(trim (fst kv) \<mapsto> trim (snd kv)) else m)"
  by (simp add: tag_xml_def attr_def)










text \<open>
  Without tags the properties differ as well: the XML parser passes an empty tags
  object, the JSON parser \<open>undefined\<close>. What the entity then holds is decided by the
  constructor.
\<close>

lemma json_xml_untagged:
  "oe_tags e = [] \<Longrightarrow>
   xml_props (asXML e) uid = Some ((json_props (asJSON e) uid)\<lparr>tags := Val Map.empty\<rparr>) \<and>
   tags (json_props (asJSON e) uid) = Undefined"
  by (cases "oe_visible e")
     (auto simp: xml_props_def json_props_def attr_asXML getTags_def elements_asXML
        asJSON_def toString_def js_of_option_def split: option.splits)

section \<open>Responses to \<open>loadFromAPI\<close>: retry and rate limit\<close>

text \<open>
  No callback of the service issues a request when it is called with an error, and none
  writes the rate-limit error.
\<close>

lemma invoke_changesets_error:
  "api_fetched (snd (invoke_changesets cb (Some e) cs s)) = []"
  "rateLimitError (fst (invoke_changesets cb err cs s)) = rateLimitError s"
  by (auto simp: invoke_changesets_def split: changesets_callback.splits option.splits)

lemma invoke_details_error:
  "api_fetched (snd (invoke_details cb (Some e) u s)) = []"
  by (auto simp: invoke_details_def gotUser_def invoke_changesets_error
      split: details_callback.splits)

lemma invoke_details_rateLimit:
  "rateLimitError (fst (invoke_details cb err u s)) = rateLimitError s"
  by (auto simp: invoke_details_def gotUser_def invoke_changesets_error
      split: details_callback.splits option.splits)

lemma invoke_api_error:
  "api_fetched (snd (invoke_api cb (Some e) res s)) = []"
  by (cases cb)
     (auto simp: invoke_api_def gotTile_def gotNoteTile_def gotUsers_def gotUsers1_def
        gotDetails_def gotChangesets_def invoke_details_error invoke_changesets_error Let_def
        split: option.splits)

lemma invoke_api_rateLimit:
  "rateLimitError (fst (invoke_api cb err res s)) = rateLimitError s"
  by (cases cb)
     (auto simp: invoke_api_def gotTile_def gotNoteTile_def gotUsers_def gotUsers1_def
        gotDetails_def gotChangesets_def invoke_details_rateLimit invoke_changesets_error Let_def
        split: option.splits)

lemma no_retry_unauthenticated:
  "\<not> authenticated s \<Longrightarrow> api_fetched (snd (loadFromAPI_response p (FetchError e) s)) = []"
  by (simp add: loadFromAPI_response_def loadFromAPI_done_def andThen_def invoke_api_error
      split_beta)

text \<open>
  C7 (as amended). Whenever the connection ID is the one the request was issued under,
  the client is authenticated and the request fails with status 400, 401 or 403, the
  service logs out (the cached user details and changesets are cleared, \<open>authchange\<close> is
  emitted) and issues the request again, without the token, with the same path, callback
  and options. When the retried request fails in the state this leaves, whatever the
  status, nothing is requested again.
\<close>

theorem auth_retry:
  assumes "connectionID s = p_cid p" and "authenticated s"
    and "status e = 400 \<or> status e = 401 \<or> status e = 403"
  shows "loadFromAPI_response p (FetchError e) s =
           (s\<lparr>cached_userChangesets := None, cached_userDetails := None, authenticated := False\<rparr>,
            [Emit ''authchange'',
             FetchAPI \<lparr>http_method = ''GET'', resource = urlroot s @ p_path p,
                       authenticated_fetch = False, request_body = NoBody\<rparr> p]) \<and>
         api_fetched (snd (loadFromAPI_response p (FetchError e')
                            (fst (loadFromAPI_response p (FetchError e) s)))) = []"
proof -
  have first: "loadFromAPI_response p (FetchError e) s =
           (s\<lparr>cached_userChangesets := None, cached_userDetails := None, authenticated := False\<rparr>,
            [Emit ''authchange'',
             FetchAPI \<lparr>http_method = ''GET'', resource = urlroot s @ p_path p,
                       authenticated_fetch = False, request_body = NoBody\<rparr> p])"
    using assms
    by (simp add: loadFromAPI_response_def loadFromAPI_done_def auth_failure_def logout_def
          andThen_def loadFromAPI_def api_request_def)
  have "\<not> authenticated (fst (loadFromAPI_response p (FetchError e) s))"
    by (simp add: first)
  then show ?thesis
    using first no_retry_unauthenticated by blast
qed

text \<open>A 401 for the user details, then a 403 for the retried request.\<close>

theorem auth_retry_witness:
  "loadFromAPI_response
     \<lparr>p_cid = 0, p_path = ''/api/0.6/user/details.json'', p_callback = ApiCaller 0,
      p_options = \<lparr>skipSeen = False\<rparr>\<rparr>
     (FetchError \<lparr>message = ''Unauthorized'', status = 401\<rparr>)
     (initial\<lparr>authenticated := True\<rparr>) =
     (initial\<lparr>authenticated := True\<rparr>
        \<lparr>cached_userChangesets := None, cached_userDetails := None, authenticated := False\<rparr>,
      [Emit ''authchange'',
       FetchAPI \<lparr>http_method = ''GET'',
                 resource = urlroot (initial\<lparr>authenticated := True\<rparr>) @
                   p_path \<lparr>p_cid = 0, p_path = ''/api/0.6/user/details.json'',
                           p_callback = ApiCaller 0, p_options = \<lparr>skipSeen = False\<rparr>\<rparr>,
                 authenticated_fetch = False, request_body = NoBody\<rparr>
         \<lparr>p_cid = 0, p_path = ''/api/0.6/user/details.json'', p_callback = ApiCaller 0,
          p_options = \<lparr>skipSeen = False\<rparr>\<rparr>]) \<and>
   api_fetched (snd (loadFromAPI_response
     \<lparr>p_cid = 0, p_path = ''/api/0.6/user/details.json'', p_callback = ApiCaller 0,
      p_options = \<lparr>skipSeen = False\<rparr>\<rparr>
     (FetchError \<lparr>message = ''Forbidden'', status = 403\<rparr>)
     (fst (loadFromAPI_response
       \<lparr>p_cid = 0, p_path = ''/api/0.6/user/details.json'', p_callback = ApiCaller 0,
        p_options = \<lparr>skipSeen = False\<rparr>\<rparr>
       (FetchError \<lparr>message = ''Unauthorized'', status = 401\<rparr>)
       (initial\<lparr>authenticated := True\<rparr>))))) = []"
  by (rule auth_retry) (simp_all add: initial_def)

text \<open>
  C7 as stated fails: when the connection was switched while the request was under way,
  \<open>done\<close> reports \<open>Connection Switched\<close> and returns; the client stays logged in and
  nothing is requested again.
\<close>

theorem auth_retry_connection_switched:
  "loadFromAPI_response
     \<lparr>p_cid = 0, p_path = ''/api/0.6/user/details.json'', p_callback = ApiCaller 0,
      p_options = \<lparr>skipSeen = False\<rparr>\<rparr>
     (FetchError \<lparr>message = ''Unauthorized'', status = 401\<rparr>)
     (initial\<lparr>authenticated := True, connectionID := 1\<rparr>) =
     (initial\<lparr>authenticated := True, connectionID := 1\<rparr>,
      [Callback 0 [ArgError \<lparr>message = ''Connection Switched'', status = -1\<rparr>]])"
  by (simp add: loadFromAPI_response_def loadFromAPI_done_def invoke_api_def initial_def)

text \<open>
  C6 (as amended). When the connection ID is the one the request was issued under, the
  client is not authenticated, no rate-limit error is recorded and the request fails with
  status 429 or 509, the service records the error, emits \<open>authchange\<close> and calls the
  throttled reload of the API status (and then the callback, with the error). While a
  rate-limit error is recorded, \<open>status\<close> calls its callback with that error and
  \<open>rateLimited\<close> when its capabilities request succeeds on an unchanged connection.
  \<open>authenticate\<close>, when it succeeds on an unchanged connection, clears the recorded error.
\<close>

theorem rate_limit_recovery:
  "(connectionID s = p_cid p \<and> \<not> authenticated s \<and> rateLimitError s = None \<and>
      (status e = 429 \<or> status e = 509) \<longrightarrow>
      loadFromAPI_response p (FetchError e) s =
        andThen (s\<lparr>rateLimitError := Some e\<rparr>, [Emit ''authchange'', ThrottledReloadApiStatus])
          (\<lambda>s'. if p_callback p = NoCallback then (s', [])
                else invoke_api (p_callback p) (Some e) None s') \<and>
      rateLimitError (fst (loadFromAPI_response p (FetchError e) s)) = Some e) \<and>
   (rateLimitError s = Some r \<and> connectionID s = cid \<longrightarrow>
      statusAPI_response cid (StatusCaller n) (Ok caps) s =
        (s, [Callback n [ArgError r, ArgString (Val ''rateLimited'')]])) \<and>
   (connectionID s = cid \<longrightarrow>
      rateLimitError (fst (authenticate_done cid cb None res s)) = None)"
proof (intro conjI impI)
  assume a: "connectionID s = p_cid p \<and> \<not> authenticated s \<and> rateLimitError s = None \<and>
      (status e = 429 \<or> status e = 509)"
  then have notauth: "\<not> auth_failure (Some e)" and rl: "rate_limited (Some e)"
    by (auto simp: auth_failure_def rate_limited_def)
  show eq: "loadFromAPI_response p (FetchError e) s =
        andThen (s\<lparr>rateLimitError := Some e\<rparr>, [Emit ''authchange'', ThrottledReloadApiStatus])
          (\<lambda>s'. if p_callback p = NoCallback then (s', [])
                else invoke_api (p_callback p) (Some e) None s')"
    using a rl notauth by (simp add: loadFromAPI_response_def loadFromAPI_done_def cong: if_cong)
  show "rateLimitError (fst (loadFromAPI_response p (FetchError e) s)) = Some e"
    by (simp add: eq andThen_def invoke_api_rateLimit split_beta)
next
  assume "rateLimitError s = Some r \<and> connectionID s = cid"
  then show "statusAPI_response cid (StatusCaller n) (Ok caps) s =
        (s, [Callback n [ArgError r, ArgString (Val ''rateLimited'')]])"
    by (simp add: statusAPI_response_def wrapcb_at_def gotResult_def invoke_status_def err_arg_def)
next
  assume "connectionID s = cid"
  then show "rateLimitError (fst (authenticate_done cid cb None res s)) = None"
    by (simp add: authenticate_done_def andThen_def userChangesets_def userDetails_def
          invoke_changesets_error invoke_details_rateLimit split_beta)
qed

text \<open>A 429 for a tile, the status while it is recorded, and a login.\<close>

theorem rate_limit_recovery_witness:
  "loadFromAPI_response
     \<lparr>p_cid = 0, p_path = ''/api/0.6/map.json?bbox=0,0,1,1'', p_callback = ApiCaller 0,
      p_options = \<lparr>skipSeen = True\<rparr>\<rparr>
     (FetchError \<lparr>message = ''Too Many Requests'', status = 429\<rparr>) initial =
     (initial\<lparr>rateLimitError := Some \<lparr>message = ''Too Many Requests'', status = 429\<rparr>\<rparr>,
      [Emit ''authchange'', ThrottledReloadApiStatus,
       Callback 0 [ArgError \<lparr>message = ''Too Many Requests'', status = 429\<rparr>]]) \<and>
   statusAPI_response 0 (StatusCaller 1)
     (Ok \<lparr>cap_regexes = [], cap_maxWayNodes = Some 2000, cap_api = Some (Val ''online'')\<rparr>)
     (initial\<lparr>rateLimitError := Some \<lparr>message = ''Too Many Requests'', status = 429\<rparr>\<rparr>) =
     (initial\<lparr>rateLimitError := Some \<lparr>message = ''Too Many Requests'', status = 429\<rparr>\<rparr>,
      [Callback 1 [ArgError \<lparr>message = ''Too Many Requests'', status = 429\<rparr>,
                   ArgString (Val ''rateLimited'')]]) \<and>
   rateLimitError (fst (authenticate_done 0 (Some 2) None ArgUndefined
     (initial\<lparr>authenticated := True,
        rateLimitError := Some \<lparr>message = ''Too Many Requests'', status = 429\<rparr>\<rparr>))) = None"
  using rate_limit_recovery [of initial
      "\<lparr>p_cid = 0, p_path = ''/api/0.6/map.json?bbox=0,0,1,1'', p_callback = ApiCaller 0,
        p_options = \<lparr>skipSeen = True\<rparr>\<rparr>"
      "\<lparr>message = ''Too Many Requests'', status = 429\<rparr>"]
    rate_limit_recovery [where
      s = "initial\<lparr>rateLimitError := Some \<lparr>message = ''Too Many Requests'', status = 429\<rparr>\<rparr>"
      and r = "\<lparr>message = ''Too Many Requests'', status = 429\<rparr>" and cid = 0 and n = 1
      and caps = "\<lparr>cap_regexes = [], cap_maxWayNodes = Some 2000, cap_api = Some (Val ''online'')\<rparr>"]
    rate_limit_recovery [where
      s = "initial\<lparr>authenticated := True,
        rateLimitError := Some \<lparr>message = ''Too Many Requests'', status = 429\<rparr>\<rparr>"
      and cid = 0 and cb = "Some 2" and res = ArgUndefined]
  by (simp add: initial_def andThen_def invoke_api_def)

text \<open>
  C6 as stated fails twice. While a rate-limit error is recorded and the capabilities
  request itself fails, \<open>status\<close> reports that request's error and \<open>null\<close>, not
  \<open>rateLimited\<close>. And a 429 that arrives after the connection was switched is not
  recorded: \<open>done\<close> reports \<open>Connection Switched\<close> and returns.
\<close>

theorem rate_limit_not_reported:
  "statusAPI_response 0 (StatusCaller 1)
     (FetchError \<lparr>message = ''Too Many Requests'', status = 429\<rparr>)
     (initial\<lparr>rateLimitError := Some \<lparr>message = ''Too Many Requests'', status = 429\<rparr>\<rparr>) =
     (initial\<lparr>rateLimitError := Some \<lparr>message = ''Too Many Requests'', status = 429\<rparr>\<rparr>,
      [Callback 1 [ArgError \<lparr>message = ''Too Many Requests'', status = 429\<rparr>,
                   ArgString Null]]) \<and>
   loadFromAPI_response
     \<lparr>p_cid = 0, p_path = ''/api/0.6/map.json?bbox=0,0,1,1'', p_callback = ApiCaller 0,
      p_options = \<lparr>skipSeen = True\<rparr>\<rparr>
     (FetchError \<lparr>message = ''Too Many Requests'', status = 429\<rparr>)
     (initial\<lparr>connectionID := 1\<rparr>) =
     (initial\<lparr>connectionID := 1\<rparr>,
      [Callback 0 [ArgError \<lparr>message = ''Connection Switched'', status = -1\<rparr>]])"
  by (simp add: statusAPI_response_def wrapcb_at_def gotResult_def invoke_status_def err_arg_def
        loadFromAPI_response_def loadFromAPI_done_def invoke_api_def initial_def)

section \<open>Loading users\<close>

lemma loadUsers_split_eq:
  "loadUsers_split us s =
     (s\<lparr>user_toLoad := user_toLoad s - {u \<in> set us. user_cache s u \<noteq> None}\<rparr>,
      List.map_filter (user_cache s) us,
      filter (\<lambda>u. user_cache s u = None) us)"
proof (induction us arbitrary: s)
  case Nil
  then show ?case by (simp add: List.map_filter_simps)
next
  case (Cons uid rest)
  show ?case
  proof (cases "user_cache s uid")
    case None
    then have "{u \<in> set (uid # rest). user_cache s u \<noteq> None} = {u \<in> set rest. user_cache s u \<noteq> None}"
      by auto
    with None show ?thesis by (simp add: Cons.IH List.map_filter_simps)
  next
    case (Some u)
    then have "user_toLoad s - {uid} - {u \<in> set rest. user_cache s u \<noteq> None} =
               user_toLoad s - {u \<in> set (uid # rest). user_cache s u \<noteq> None}"
      by auto
    with Some show ?thesis by (simp add: Cons.IH List.map_filter_simps)
  qed
qed

lemma set_utilArrayUniq [simp]: "set (utilArrayUniq a) = set a"
  by (simp add: utilArrayUniq_def)

lemma distinct_utilArrayUniq: "distinct (utilArrayUniq a)"
  by (simp add: utilArrayUniq_def)

lemma concat_slices: "0 < n \<Longrightarrow> concat (map (\<lambda>i. take n (drop (i * n) a)) [0..<k]) = take (k * n) a"
proof (induction k)
  case 0
  then show ?case by simp
next
  case (Suc k)
  have "take (k * n) a @ take n (drop (k * n) a) = take (k * n + n) a"
    by (simp add: take_add)
  with Suc show ?case by (simp add: add.commute)
qed

lemma concat_utilArrayChunk: "concat (utilArrayChunk a n) = a"
proof (cases "n = 0")
  case True
  then show ?thesis by (simp add: utilArrayChunk_def)
next
  case False
  then have pos: "0 < n" by simp
  have "(length a + n - 1) div n * n + (length a + n - 1) mod n = length a + n - 1"
    by simp
  moreover have "(length a + n - 1) mod n < n"
    using pos by simp
  ultimately have "length a \<le> ((length a + n - 1) div n) * n"
    by linarith
  with False show ?thesis by (simp add: utilArrayChunk_def concat_slices)
qed

lemma utilArrayChunk_slices:
  assumes "0 < n" and "arr \<in> set (utilArrayChunk a n)"
  shows "length arr \<le> n \<and> arr \<noteq> [] \<and> set arr \<subseteq> set a"
proof -
  from assms obtain i where i: "i < (length a + n - 1) div n" and arr: "arr = take n (drop (i * n) a)"
    by (auto simp: utilArrayChunk_def)
  have "i * n < length a"
  proof (rule ccontr)
    assume "\<not> i * n < length a"
    with assms(1) have "length a + n - 1 < (i + 1) * n" by simp
    then have "(length a + n - 1) div n < i + 1"
      by (rule less_mult_imp_div_less)
    with i show False by simp
  qed
  with arr assms(1) show ?thesis
    by (auto dest: in_set_takeD in_set_dropD)
qed


lemma called_FetchAPI [simp]: "called (map (\<lambda>x. FetchAPI (r x) (p x)) xs) = []"
  by (induction xs) auto

lemma api_fetched_FetchAPI [simp]:
  "api_fetched (map (\<lambda>x. FetchAPI (r x) (p x)) xs) = map (\<lambda>x. (r x, p x)) xs"
  by (induction xs) auto

lemma map_filter_empty_iff: "List.map_filter f xs \<noteq> [] \<longleftrightarrow> (\<exists>x \<in> set xs. f x \<noteq> None)"
  by (induction xs) (auto simp: List.map_filter_simps split: option.splits)

lemma loadUsers_eq:
  "loadUsers s uids n =
     (s\<lparr>user_toLoad := user_toLoad s - {u \<in> set uids. user_cache s u \<noteq> None}\<rparr>,
      (if List.map_filter (user_cache s) (utilArrayUniq uids) \<noteq> [] \<or> \<not> authenticated s
       then [Callback n [ArgUndefined,
               ArgData (map ParsedUser (List.map_filter (user_cache s) (utilArrayUniq uids)))]]
       else []) @
      (if \<not> authenticated s then []
       else map (\<lambda>arr.
                  FetchAPI
                    \<lparr>http_method = ''GET'',
                     resource = urlroot s @ ''/api/0.6/users.json?users='' @ join arr,
                     authenticated_fetch = True, request_body = NoBody\<rparr>
                    \<lparr>p_cid = connectionID s, p_path = ''/api/0.6/users.json?users='' @ join arr,
                     p_callback = GotUsers n, p_options = \<lparr>skipSeen = True\<rparr>\<rparr>)
              (utilArrayChunk (filter (\<lambda>u. user_cache s u = None) (utilArrayUniq uids)) 150)))"
  by (simp add: loadUsers_def loadUsers_split_eq loadFromAPI_def api_request_def
        concat_map_singleton comp_def)

text \<open>
  C9. \<open>loadUsers\<close> calls its callback with the cached records of the given IDs (each once,
  in the order given) exactly when at least one ID is cached or the client is not
  authenticated. When the client is authenticated it issues one request for each slice of
  at most 150 of the IDs that are not cached, and these slices together are exactly the
  uncached IDs; when it is not authenticated it issues none. It writes no user into the
  cache. \<open>loadUser\<close> answers from the cache, without a request, when the ID is cached or
  the client is not authenticated.
\<close>

theorem loadUsers_serves_cache:
  fixes s uids n
  defines "cached \<equiv> List.map_filter (user_cache s) (utilArrayUniq uids)"
    and "toLoad \<equiv> filter (\<lambda>u. user_cache s u = None) (utilArrayUniq uids)"
  shows
    "called (snd (loadUsers s uids n)) =
       (if cached \<noteq> [] \<or> \<not> authenticated s
        then [(n, [ArgUndefined, ArgData (map ParsedUser cached)])] else []) \<and>
     map (\<lambda>rp. p_path (snd rp)) (api_fetched (snd (loadUsers s uids n))) =
       (if authenticated s
        then map (\<lambda>arr. ''/api/0.6/users.json?users='' @ join arr) (utilArrayChunk toLoad 150)
        else []) \<and>
     concat (utilArrayChunk toLoad 150) = toLoad \<and>
     (\<forall>arr \<in> set (utilArrayChunk toLoad 150).
        length arr \<le> 150 \<and> arr \<noteq> [] \<and> (\<forall>uid \<in> set arr. user_cache s uid = None)) \<and>
     (cached \<noteq> [] \<longleftrightarrow> (\<exists>uid \<in> set uids. user_cache s uid \<noteq> None)) \<and>
     user_cache (fst (loadUsers s uids n)) = user_cache s \<and>
     (user_cache s uid \<noteq> None \<or> \<not> authenticated s \<longrightarrow>
        api_fetched (snd (loadUser s uid n)) = [] \<and>
        called (snd (loadUser s uid n)) =
          [(n, [ArgUndefined, ArgParsed (map_option ParsedUser (user_cache s uid))])])"
proof -
  have called: "called (snd (loadUsers s uids n)) =
       (if cached \<noteq> [] \<or> \<not> authenticated s
        then [(n, [ArgUndefined, ArgData (map ParsedUser cached)])] else [])"
    by (simp add: loadUsers_eq cached_def)
  have fetched: "map (\<lambda>rp. p_path (snd rp)) (api_fetched (snd (loadUsers s uids n))) =
       (if authenticated s
        then map (\<lambda>arr. ''/api/0.6/users.json?users='' @ join arr) (utilArrayChunk toLoad 150)
        else [])"
    by (simp add: loadUsers_eq toLoad_def comp_def)
  have whole: "concat (utilArrayChunk toLoad 150) = toLoad"
    by (rule concat_utilArrayChunk)
  have slices: "\<forall>arr \<in> set (utilArrayChunk toLoad 150).
        length arr \<le> 150 \<and> arr \<noteq> [] \<and> (\<forall>uid \<in> set arr. user_cache s uid = None)"
  proof
    fix arr assume "arr \<in> set (utilArrayChunk toLoad 150)"
    then have "length arr \<le> 150 \<and> arr \<noteq> [] \<and> set arr \<subseteq> set toLoad"
      by (intro utilArrayChunk_slices) simp_all
    then show "length arr \<le> 150 \<and> arr \<noteq> [] \<and> (\<forall>uid \<in> set arr. user_cache s uid = None)"
      by (auto simp: toLoad_def)
  qed
  have some: "cached \<noteq> [] \<longleftrightarrow> (\<exists>uid \<in> set uids. user_cache s uid \<noteq> None)"
    by (simp add: cached_def map_filter_empty_iff)
  have cache: "user_cache (fst (loadUsers s uids n)) = user_cache s"
    by (simp add: loadUsers_eq)
  have single: "user_cache s uid \<noteq> None \<or> \<not> authenticated s \<longrightarrow>
        api_fetched (snd (loadUser s uid n)) = [] \<and>
        called (snd (loadUser s uid n)) =
          [(n, [ArgUndefined, ArgParsed (map_option ParsedUser (user_cache s uid))])]"
    by (auto simp: loadUser_def)
  from called fetched whole slices some cache single show ?thesis by blast
qed

text \<open>Four IDs, one of them twice and cached; and an unauthenticated call.\<close>

theorem loadUsers_serves_cache_witness:
  "called (snd (loadUsers (initial\<lparr>authenticated := True, user_cache := [''1'' \<mapsto> alice]\<rparr>)
      [''1'', ''2'', ''1'', ''3''] 7)) =
     [(7, [ArgUndefined, ArgData [ParsedUser alice]])] \<and>
   map (\<lambda>rp. p_path (snd rp))
     (api_fetched (snd (loadUsers (initial\<lparr>authenticated := True, user_cache := [''1'' \<mapsto> alice]\<rparr>)
        [''1'', ''2'', ''1'', ''3''] 7))) =
     [''/api/0.6/users.json?users=2,3''] \<and>
   api_fetched (snd (loadUser (initial\<lparr>authenticated := True, user_cache := [''1'' \<mapsto> alice]\<rparr>)
      ''1'' 7)) = [] \<and>
   called (snd (loadUsers initial [''2''] 7)) = [(7, [ArgUndefined, ArgData []])] \<and>
   api_fetched (snd (loadUsers initial [''2''] 7)) = []"
  using loadUsers_serves_cache
          [of "initial\<lparr>authenticated := True, user_cache := [''1'' \<mapsto> alice]\<rparr>"
              "[''1'', ''2'', ''1'', ''3'']" 7 "''1''"]
        loadUsers_serves_cache [of initial "[''2'']" 7 "''2''"]
  by (simp add: initial_def utilArrayUniq_def utilArrayChunk_def List.map_filter_simps)

section \<open>Deduplication of tile requests\<close>

lemma tile_requests_append [simp]:
  "tile_requests i (xs @ ys) = tile_requests i xs + tile_requests i ys"
  by (simp add: tile_requests_def)

lemma tile_requests_Nil [simp]: "tile_requests i [] = 0"
  by (simp add: tile_requests_def)

lemma tile_requests_Abort [simp]: "tile_requests i (map (\<lambda>kc. Abort (f kc)) xs) = 0"
  by (induction xs) (auto simp: tile_requests_def)

lemma tile_requests_Emit [simp]: "tile_requests i (Emit e # as) = tile_requests i as"
  by (simp add: tile_requests_def)


lemma map_of_update: "map_of (AList.update k v al) = (map_of al)(k \<mapsto> v)"
  by (rule update_conv')













section \<open>A tile that was loaded\<close>












section \<open>Parsing a payload again\<close>

































end
